theory Spec2Isabelle
  imports Main "HOL-Library.Word"
begin

section \<open>The validator service of the relay (package server)\<close>

text \<open>
  The Go source keeps a map from lower-cased public keys to the entries of the beacon
  node's validator list, replaces it as a whole in \<^verbatim>\<open>FetchValidators\<close> and reads it in
  \<^verbatim>\<open>IsValidator\<close> and \<^verbatim>\<open>NumValidators\<close>. Strings are Go strings: sequences of bytes,
  here \<^typ>\<open>string\<close>. The read/write lock \<^verbatim>\<open>mu\<close> orders concurrent calls and has no
  sequential effect; it is not part of the state below.
\<close>

subsection \<open>Errors\<close>

text \<open>
  A Go \<^verbatim>\<open>error\<close> value. \<open>errorString s\<close> is what \<^verbatim>\<open>errors.New(s)\<close> returns,
  \<open>wrapError msg err\<close> what \<^verbatim>\<open>fmt.Errorf\<close> returns for a format with \<^verbatim>\<open>%w\<close> (the
  formatted message and the wrapped error). \<open>SyntaxError\<close> and \<open>UnmarshalTypeError\<close>
  are the two errors of encoding/json that decoding into the structs of this package can
  produce; \<open>UnmarshalTypeError\<close> holds the description of the JSON value and the name of
  the Go type (the field path that newer Go versions add to its text is left out).
  \<open>otherError\<close> is an error made by net/url, net/http or io, known by its text only.
  A nil error is \<open>None\<close> of an optional error.
\<close>

datatype error =
    errorString string
  | wrapError string error
  | SyntaxError string
  | UnmarshalTypeError string string
  | otherError string

fun Error :: "error \<Rightarrow> string" where
  "Error (errorString s) = s"
| "Error (wrapError msg err) = msg"
| "Error (SyntaxError msg) = msg"
| "Error (UnmarshalTypeError v t) =
     ''json: cannot unmarshal '' @ v @ '' into Go value of type '' @ t"
| "Error (otherError msg) = msg"

text \<open>\<^verbatim>\<open>fmt.Errorf(prefix + ": %w", err)\<close>, with the \<^verbatim>\<open>%s\<close> arguments already in the prefix.\<close>

definition Errorf :: "string \<Rightarrow> error \<Rightarrow> error" where
  "Errorf prefix err = wrapError (prefix @ '': '' @ Error err) err"

subsection \<open>JSON documents\<close>

text \<open>
  The syntax tree of a JSON text as the scanner of encoding/json reads it: object members
  in the order of the text (duplicates kept), strings and keys unquoted, a number as its
  literal.
\<close>

datatype json =
    JNull
  | JBool bool
  | JNumber string
  | JString string
  | JArray "json list"
  | JObject "(string \<times> json) list"

subsection \<open>What the Go library supplies\<close>

text \<open>
  Two functions of the Go standard library are not in the repository and are parameters
  of the model: the Unicode case table that \<^verbatim>\<open>strings.ToLower\<close> applies to a string
  with a byte outside ASCII (\<^verbatim>\<open>strings.Map(unicode.ToLower, s)\<close>), and the scanner of
  encoding/json, which reads the bytes of a body as a JSON document or rejects them with
  a syntax error.
\<close>

record stdlib =
  unicodeToLower :: "string \<Rightarrow> string"
  jsonScan :: "string \<Rightarrow> error + json"

subsection \<open>strings.ToLower\<close>

definition isASCII :: "char \<Rightarrow> bool" where
  "isASCII c = ((of_char c :: nat) < 128)"

definition isUpper :: "char \<Rightarrow> bool" where
  "isUpper c = (65 \<le> (of_char c :: nat) \<and> (of_char c :: nat) \<le> 90)"

definition isLower :: "char \<Rightarrow> bool" where
  "isLower c = (97 \<le> (of_char c :: nat) \<and> (of_char c :: nat) \<le> 122)"

definition lowerByte :: "char \<Rightarrow> char" where
  "lowerByte c = (if isUpper c then char_of ((of_char c :: nat) + 32) else c)"

definition upperByte :: "char \<Rightarrow> char" where
  "upperByte c = (if isLower c then char_of ((of_char c :: nat) - 32) else c)"

text \<open>
  Go's \<^verbatim>\<open>strings.ToLower\<close>: a string of ASCII bytes is returned as it is when it has no
  upper-case letter, and with \<^verbatim>\<open>'a' - 'A'\<close> added to each upper-case letter otherwise; any
  other string goes through the Unicode table.
\<close>

definition ToLower :: "stdlib \<Rightarrow> string \<Rightarrow> string" where
  "ToLower lib s =
     (if list_all isASCII s
      then (if list_ex isUpper s then map lowerByte s else s)
      else unicodeToLower lib s)"

subsection \<open>The service\<close>

record validatorStruct =
  Pubkey :: string

record validatorResponseEntry =
  Validator :: validatorStruct

record allValidatorsResponse =
  Data :: "validatorResponseEntry list"

record BeaconClientValidatorService =
  beaconEndpoint :: string
  validatorSet :: "string \<rightharpoonup> validatorResponseEntry"

definition NewBeaconClientValidatorService :: "string \<Rightarrow> BeaconClientValidatorService" where
  "NewBeaconClientValidatorService endpoint =
     \<lparr>beaconEndpoint = endpoint, validatorSet = Map.empty\<rparr>"

definition IsValidator :: "stdlib \<Rightarrow> BeaconClientValidatorService \<Rightarrow> string \<Rightarrow> bool" where
  "IsValidator lib b pubkey =
     (let pkLower = ToLower lib pubkey
      in case validatorSet b pkLower of None \<Rightarrow> False | Some _ \<Rightarrow> True)"

text \<open>
  \<^verbatim>\<open>uint64(len(b.validatorSet))\<close>: the number of keys, as a 64-bit unsigned integer. (A Go
  map is finite; every map that \<^verbatim>\<open>FetchValidators\<close> builds below is.)
\<close>

definition NumValidators :: "BeaconClientValidatorService \<Rightarrow> 64 word" where
  "NumValidators b = of_nat (card (dom (validatorSet b)))"

subsection \<open>Decoding JSON into the structs of the package\<close>

text \<open>
  \<^verbatim>\<open>json.Unmarshal\<close> works by reflection on the type of its target. For the struct types
  of this package that is the following decoders, one for each type, each taking the JSON
  value and the current value of the target:
  \<^item> a JSON object is decoded member by member, in the order of the text; a key selects
    the field whose name it equals up to case folding and is skipped when there is none;
  \<^item> \<^verbatim>\<open>null\<close> leaves a struct, a string or an integer as it is and makes a slice nil;
  \<^item> an array is decoded into a slice element by element, each from the zero value
    (the documented behaviour: the slice is reset, then appended to);
  \<^item> any other combination is an \<^verbatim>\<open>UnmarshalTypeError\<close>.
  Go goes on decoding after an \<^verbatim>\<open>UnmarshalTypeError\<close> and returns the earliest one at
  the end; the callers in this package drop the target when there is an error, so the
  decoders stop at the first error and return only it.
\<close>

text \<open>
  The folding of a key: ASCII letters to upper case, and the two letters outside ASCII that
  fold to an ASCII letter, the Kelvin sign U+212A (bytes E2 84 AA) and the long s U+017F
  (bytes C5 BF). Two strings of which one is ASCII are equal under \<^verbatim>\<open>bytes.EqualFold\<close>
  exactly when their foldings are equal.
\<close>

fun foldName :: "string \<Rightarrow> string" where
  "foldName (a # b # c # cs) =
     (if a = CHR 0xE2 \<and> b = CHR 0x84 \<and> c = CHR 0xAA then CHR ''K'' # foldName cs
      else if a = CHR 0xC5 \<and> b = CHR 0xBF then CHR ''S'' # foldName (c # cs)
      else upperByte a # foldName (b # c # cs))"
| "foldName [a, b] =
     (if a = CHR 0xC5 \<and> b = CHR 0xBF then [CHR ''S''] else [upperByte a, upperByte b])"
| "foldName [a] = [upperByte a]"
| "foldName [] = []"

definition equalFold :: "string \<Rightarrow> string \<Rightarrow> bool" where
  "equalFold key name = (foldName key = foldName name)"

text \<open>The word for a JSON value in the \<^verbatim>\<open>Value\<close> field of an \<^verbatim>\<open>UnmarshalTypeError\<close>.\<close>

fun valueKind :: "json \<Rightarrow> string" where
  "valueKind JNull = ''null''"
| "valueKind (JBool _) = ''bool''"
| "valueKind (JNumber _) = ''number''"
| "valueKind (JString _) = ''string''"
| "valueKind (JArray _) = ''array''"
| "valueKind (JObject _) = ''object''"

text \<open>
  \<^verbatim>\<open>strconv.ParseInt(s, 10, 64)\<close>: an optional sign, then one or more decimal digits, the
  value within the range of a 64-bit signed integer (Go's \<^verbatim>\<open>int\<close> on a 64-bit platform).
\<close>

definition isDigit :: "char \<Rightarrow> bool" where
  "isDigit c = (48 \<le> (of_char c :: nat) \<and> (of_char c :: nat) \<le> 57)"

definition digitsValue :: "string \<Rightarrow> int" where
  "digitsValue ds = foldl (\<lambda>n c. 10 * n + (int (of_char c) - 48)) 0 ds"

definition parseDigits :: "string \<Rightarrow> int option" where
  "parseDigits ds = (if ds \<noteq> [] \<and> list_all isDigit ds then Some (digitsValue ds) else None)"

definition ParseInt :: "string \<Rightarrow> int option" where
  "ParseInt s =
     (case (case s of
              [] \<Rightarrow> None
            | c # cs \<Rightarrow>
                if c = CHR ''-'' then map_option uminus (parseDigits cs)
                else if c = CHR ''+'' then parseDigits cs
                else parseDigits s) of
        None \<Rightarrow> None
      | Some n \<Rightarrow> if - (2 ^ 63) \<le> n \<and> n \<le> 2 ^ 63 - 1 then Some n else None)"

fun decodeString :: "json \<Rightarrow> string \<Rightarrow> error + string" where
  "decodeString (JString s) cur = Inr s"
| "decodeString JNull cur = Inr cur"
| "decodeString j cur = Inl (UnmarshalTypeError (valueKind j) ''string'')"

fun decodeInt :: "json \<Rightarrow> int \<Rightarrow> error + int" where
  "decodeInt (JNumber s) cur =
     (case ParseInt s of
        None \<Rightarrow> Inl (UnmarshalTypeError (''number '' @ s) ''int'')
      | Some n \<Rightarrow> Inr n)"
| "decodeInt JNull cur = Inr cur"
| "decodeInt j cur = Inl (UnmarshalTypeError (valueKind j) ''int'')"

text \<open>The members of an object, in order, each through the decoder of the struct's fields.\<close>

fun decodeMembers ::
  "(string \<Rightarrow> json \<Rightarrow> 'a \<Rightarrow> error + 'a) \<Rightarrow> (string \<times> json) list \<Rightarrow> 'a \<Rightarrow> error + 'a" where
  "decodeMembers field [] v = Inr v"
| "decodeMembers field ((k, j) # kvs) v =
     (case field k j v of
        Inl err \<Rightarrow> Inl err
      | Inr v' \<Rightarrow> decodeMembers field kvs v')"

text \<open>A struct target: an object is decoded by members, \<^verbatim>\<open>null\<close> changes nothing.\<close>

fun decodeStruct ::
  "string \<Rightarrow> (string \<Rightarrow> json \<Rightarrow> 'a \<Rightarrow> error + 'a) \<Rightarrow> json \<Rightarrow> 'a \<Rightarrow> error + 'a" where
  "decodeStruct typeName field (JObject kvs) v = decodeMembers field kvs v"
| "decodeStruct typeName field JNull v = Inr v"
| "decodeStruct typeName field j v = Inl (UnmarshalTypeError (valueKind j) typeName)"

text \<open>\<^verbatim>\<open>struct { Pubkey string `json:"pubkey"` }\<close>\<close>

definition validatorStructType :: string where
  "validatorStructType =
     ''struct { Pubkey string '' @ [CHR 0x22] @ ''json:'' @ [CHR 0x5C, CHR 0x22]
       @ ''pubkey'' @ [CHR 0x5C, CHR 0x22, CHR 0x22] @ '' }''"

definition validatorStructField ::
  "string \<Rightarrow> json \<Rightarrow> validatorStruct \<Rightarrow> error + validatorStruct" where
  "validatorStructField key j v =
     (if equalFold key ''pubkey''
      then (case decodeString j (Pubkey v) of
              Inl err \<Rightarrow> Inl err
            | Inr s \<Rightarrow> Inr (v\<lparr>Pubkey := s\<rparr>))
      else Inr v)"

definition decodeValidatorStruct :: "json \<Rightarrow> validatorStruct \<Rightarrow> error + validatorStruct" where
  "decodeValidatorStruct = decodeStruct validatorStructType validatorStructField"

text \<open>\<^verbatim>\<open>validatorResponseEntry\<close>: one field, \<^verbatim>\<open>Validator\<close>, with the JSON name \<^verbatim>\<open>validator\<close>.\<close>

definition validatorResponseEntryField ::
  "string \<Rightarrow> json \<Rightarrow> validatorResponseEntry \<Rightarrow> error + validatorResponseEntry" where
  "validatorResponseEntryField key j v =
     (if equalFold key ''validator''
      then (case decodeValidatorStruct j (Validator v) of
              Inl err \<Rightarrow> Inl err
            | Inr x \<Rightarrow> Inr (v\<lparr>Validator := x\<rparr>))
      else Inr v)"

definition decodeValidatorResponseEntry ::
  "json \<Rightarrow> validatorResponseEntry \<Rightarrow> error + validatorResponseEntry" where
  "decodeValidatorResponseEntry =
     decodeStruct ''server.validatorResponseEntry'' validatorResponseEntryField"

text \<open>\<^verbatim>\<open>[]validatorResponseEntry\<close>: each element of the array from the zero entry.\<close>

fun decodeElements :: "json list \<Rightarrow> error + validatorResponseEntry list" where
  "decodeElements [] = Inr []"
| "decodeElements (j # js) =
     (case decodeValidatorResponseEntry j \<lparr>Validator = \<lparr>Pubkey = []\<rparr>\<rparr> of
        Inl err \<Rightarrow> Inl err
      | Inr x \<Rightarrow>
          (case decodeElements js of
             Inl err \<Rightarrow> Inl err
           | Inr xs \<Rightarrow> Inr (x # xs)))"

fun decodeSlice ::
  "json \<Rightarrow> validatorResponseEntry list \<Rightarrow> error + validatorResponseEntry list" where
  "decodeSlice (JArray js) cur = decodeElements js"
| "decodeSlice JNull cur = Inr []"
| "decodeSlice j cur = Inl (UnmarshalTypeError (valueKind j) ''[]server.validatorResponseEntry'')"

text \<open>
  \<^verbatim>\<open>allValidatorsResponse\<close>: one field, \<^verbatim>\<open>Data\<close>, without a tag, so its JSON name is
  \<^verbatim>\<open>Data\<close>; the key \<^verbatim>\<open>data\<close> of the beacon API selects it through case folding.
\<close>

definition allValidatorsResponseField ::
  "string \<Rightarrow> json \<Rightarrow> allValidatorsResponse \<Rightarrow> error + allValidatorsResponse" where
  "allValidatorsResponseField key j v =
     (if equalFold key ''Data''
      then (case decodeSlice j (Data v) of
              Inl err \<Rightarrow> Inl err
            | Inr xs \<Rightarrow> Inr (v\<lparr>Data := xs\<rparr>))
      else Inr v)"

definition decodeAllValidatorsResponse ::
  "json \<Rightarrow> allValidatorsResponse \<Rightarrow> error + allValidatorsResponse" where
  "decodeAllValidatorsResponse =
     decodeStruct ''server.allValidatorsResponse'' allValidatorsResponseField"

text \<open>
  The struct of \<^verbatim>\<open>fetchBeacon\<close> for the body of an error response:
  \<^verbatim>\<open>struct { Code int `json:"code"`; Message string `json:"message"` }\<close>
\<close>

record errorResponse =
  Code :: int
  Message :: string

definition errorResponseType :: string where
  "errorResponseType =
     ''struct { Code int '' @ [CHR 0x22] @ ''json:'' @ [CHR 0x5C, CHR 0x22]
       @ ''code'' @ [CHR 0x5C, CHR 0x22, CHR 0x22] @ ''; Message string '' @ [CHR 0x22]
       @ ''json:'' @ [CHR 0x5C, CHR 0x22] @ ''message'' @ [CHR 0x5C, CHR 0x22, CHR 0x22]
       @ '' }''"

definition errorResponseField ::
  "string \<Rightarrow> json \<Rightarrow> errorResponse \<Rightarrow> error + errorResponse" where
  "errorResponseField key j v =
     (if equalFold key ''code''
      then (case decodeInt j (Code v) of
              Inl err \<Rightarrow> Inl err
            | Inr n \<Rightarrow> Inr (v\<lparr>Code := n\<rparr>))
      else if equalFold key ''message''
      then (case decodeString j (Message v) of
              Inl err \<Rightarrow> Inl err
            | Inr s \<Rightarrow> Inr (v\<lparr>Message := s\<rparr>))
      else Inr v)"

definition decodeErrorResponse :: "json \<Rightarrow> errorResponse \<Rightarrow> error + errorResponse" where
  "decodeErrorResponse = decodeStruct errorResponseType errorResponseField"

text \<open>
  \<^verbatim>\<open>json.Unmarshal(data, dst)\<close>: the bytes are scanned first; a syntax error is returned
  as it is, a document is decoded into the target.
\<close>

definition Unmarshal ::
  "stdlib \<Rightarrow> string \<Rightarrow> (json \<Rightarrow> 'a \<Rightarrow> error + 'a) \<Rightarrow> 'a \<Rightarrow> error + 'a" where
  "Unmarshal lib data decode dst =
     (case jsonScan lib data of
        Inl err \<Rightarrow> Inl err
      | Inr j \<Rightarrow> decode j dst)"

subsection \<open>Fetching from the beacon node\<close>

text \<open>
  What the network does in one call of \<^verbatim>\<open>fetchBeacon\<close> is an argument of the model:
  \<^verbatim>\<open>http.NewRequest\<close> fails, or \<^verbatim>\<open>http.DefaultClient.Do\<close> fails, or \<^verbatim>\<open>io.ReadAll\<close> on the
  body fails, each with the library's error, or a response with a status code and a body
  has been read.
\<close>

record response =
  StatusCode :: int
  Body :: string

datatype roundTrip =
    NewRequestFailed error
  | DoFailed error
  | ReadAllFailed error
  | Received response

text \<open>
  \<^verbatim>\<open>fetchBeacon(url, method, dst)\<close>. The target \<^verbatim>\<open>dst\<close> comes with the decoder of its
  type. \<open>Inl\<close> is the error returned; \<open>Inr\<close> is a nil error, with the target as decoded.
\<close>

definition fetchBeacon ::
  "stdlib \<Rightarrow> string \<Rightarrow> string \<Rightarrow> roundTrip \<Rightarrow> (json \<Rightarrow> 'a \<Rightarrow> error + 'a) \<Rightarrow> 'a
     \<Rightarrow> error + 'a" where
  "fetchBeacon lib url method rt decode dst =
     (case rt of
        NewRequestFailed err \<Rightarrow> Inl (Errorf (''invalid reqest for '' @ url) err)
      | DoFailed err \<Rightarrow> Inl (Errorf (''client refused for '' @ url) err)
      | ReadAllFailed err \<Rightarrow> Inl (Errorf (''could not read response body for '' @ url) err)
      | Received resp \<Rightarrow>
          if StatusCode resp \<ge> 300
          then (case Unmarshal lib (Body resp) decodeErrorResponse \<lparr>Code = 0, Message = []\<rparr> of
                  Inl err \<Rightarrow>
                    Inl (Errorf (''could not unmarshal error response from beacon node for ''
                                   @ url @ '' from '' @ Body resp) err)
                | Inr ec \<Rightarrow> Inl (errorString (Message ec)))
          else (case Unmarshal lib (Body resp) decode dst of
                  Inl err \<Rightarrow>
                    Inl (Errorf (''could not unmarshal response for '' @ url @ '' from ''
                                   @ Body resp) err)
                | Inr v \<Rightarrow> Inr v))"

text \<open>
  \<^verbatim>\<open>fetchAllValidators(endpoint)\<close> returns the target together with the error; its only
  caller reads the target when the error is nil, which is the \<open>Inr\<close> of the model.
\<close>

definition fetchAllValidators ::
  "stdlib \<Rightarrow> string \<Rightarrow> roundTrip \<Rightarrow> error + allValidatorsResponse" where
  "fetchAllValidators lib endpoint rt =
     (let uri = endpoint @ ''/eth/v1/beacon/states/head/validators?status=active,pending''
      in fetchBeacon lib uri ''GET'' rt decodeAllValidatorsResponse \<lparr>Data = []\<rparr>)"

text \<open>
  \<^verbatim>\<open>FetchValidators\<close>: the error returned (\<open>None\<close> for nil) and the service afterwards.
  The loop over \<^verbatim>\<open>vd.Data\<close> stores each entry under its lower-cased public key, a later
  entry replacing an earlier one with the same key.
\<close>

definition FetchValidators ::
  "stdlib \<Rightarrow> BeaconClientValidatorService \<Rightarrow> roundTrip
     \<Rightarrow> error option \<times> BeaconClientValidatorService" where
  "FetchValidators lib b rt =
     (case fetchAllValidators lib (beaconEndpoint b) rt of
        Inl err \<Rightarrow> (Some err, b)
      | Inr vd \<Rightarrow>
          (let newValidatorSet =
                 foldl (\<lambda>m vs. m(ToLower lib (Pubkey (Validator vs)) \<mapsto> vs)) Map.empty (Data vd)
           in (None, b\<lparr>validatorSet := newValidatorSet\<rparr>)))"

subsection \<open>The words of the specification about the service\<close>

text \<open>
  A failing fetch, as the specification lists them: the request cannot be made or sent or
  its body cannot be read (a network error), the status is 300 or more (a non-success
  response), or the body of a success response does not decode into the response struct.
\<close>

fun failingFetch :: "stdlib \<Rightarrow> roundTrip \<Rightarrow> bool" where
  "failingFetch lib (NewRequestFailed err) = True"
| "failingFetch lib (DoFailed err) = True"
| "failingFetch lib (ReadAllFailed err) = True"
| "failingFetch lib (Received resp) =
     (StatusCode resp \<ge> 300
      \<or> isl (Unmarshal lib (Body resp) decodeAllValidatorsResponse \<lparr>Data = []\<rparr>))"

text \<open>
  A run of calls of \<^verbatim>\<open>FetchValidators\<close>, one for each answer of the network, the
  errors dropped: the service after the last call.
\<close>

fun refreshes ::
  "stdlib \<Rightarrow> BeaconClientValidatorService \<Rightarrow> roundTrip list
     \<Rightarrow> BeaconClientValidatorService" where
  "refreshes lib b [] = b"
| "refreshes lib b (rt # rts) = refreshes lib (snd (FetchValidators lib b rt)) rts"

text \<open>
  The mapping built from a response, each public key in lower case: a key is mapped to the
  last entry of the response whose lower-cased public key it is.
\<close>

definition canonicalKeys :: "stdlib \<Rightarrow> allValidatorsResponse \<Rightarrow> string list" where
  "canonicalKeys lib R = map (\<lambda>vs. ToLower lib (Pubkey (Validator vs))) (Data R)"

definition canonicalMapping ::
  "stdlib \<Rightarrow> allValidatorsResponse \<Rightarrow> (string \<rightharpoonup> validatorResponseEntry)" where
  "canonicalMapping lib R key =
     List.find (\<lambda>vs. ToLower lib (Pubkey (Validator vs)) = key) (rev (Data R))"

text \<open>
  Two spellings of one hexadecimal text: the same length, and at each position the same
  byte or the two cases of one ASCII letter.
\<close>

definition sameLetter :: "char \<Rightarrow> char \<Rightarrow> bool" where
  "sameLetter c d =
     (c = d \<or> (isUpper c \<and> d = lowerByte c) \<or> (isLower c \<and> d = upperByte c))"

definition sameUpToCase :: "string \<Rightarrow> string \<Rightarrow> bool" where
  "sameUpToCase p q = list_all2 sameLetter p q"

text \<open>A JSON document that has a member for the field \<^verbatim>\<open>Data\<close> of the response struct.\<close>

fun hasDataField :: "json \<Rightarrow> bool" where
  "hasDataField (JObject kvs) = list_ex (\<lambda>kv. equalFold (fst kv) ''Data'') kvs"
| "hasDataField j = False"

fun isObjectOrNull :: "json \<Rightarrow> bool" where
  "isObjectOrNull (JObject kvs) = True"
| "isObjectOrNull JNull = True"
| "isObjectOrNull j = False"

subsection \<open>Example inputs\<close>

text \<open>
  A library for the examples: no string of the examples leaves ASCII, and the scanner
  reads four JSON texts, \<^verbatim>\<open>[]\<close>, \<^verbatim>\<open>{}\<close>, \<^verbatim>\<open>{"data":[{"validator":{"pubkey":"0xAB"}}]}\<close>
  and \<^verbatim>\<open>{"code":404,"message":"State not found"}\<close>, and rejects every other body.
\<close>

definition quoted :: "string \<Rightarrow> string" where
  "quoted s = CHR 0x22 # s @ [CHR 0x22]"

definition validatorsBody :: string where
  "validatorsBody =
     ''{'' @ quoted ''data'' @ '':[{'' @ quoted ''validator'' @ '':{'' @ quoted ''pubkey''
       @ '':'' @ quoted ''0xAB'' @ ''}}]}''"

definition validatorsDocument :: json where
  "validatorsDocument =
     JObject [(''data'',
       JArray [JObject [(''validator'', JObject [(''pubkey'', JString ''0xAB'')])]])]"

definition notFoundBody :: string where
  "notFoundBody =
     ''{'' @ quoted ''code'' @ '':404,'' @ quoted ''message'' @ '':''
       @ quoted ''State not found'' @ ''}''"

definition notFoundDocument :: json where
  "notFoundDocument = JObject [(''code'', JNumber ''404''), (''message'', JString ''State not found'')]"

definition exampleScan :: "string \<Rightarrow> error + json" where
  "exampleScan data =
     (if data = ''[]'' then Inr (JArray [])
      else if data = ''{}'' then Inr (JObject [])
      else if data = validatorsBody then Inr validatorsDocument
      else if data = notFoundBody then Inr notFoundDocument
      else Inl (SyntaxError ''invalid character looking for beginning of value''))"

definition exampleLib :: stdlib where
  "exampleLib = \<lparr>unicodeToLower = id, jsonScan = exampleScan\<rparr>"

text \<open>A service that knows one validator, under the key \<^verbatim>\<open>0xcd\<close>.\<close>

definition exampleService :: BeaconClientValidatorService where
  "exampleService =
     \<lparr>beaconEndpoint = ''http://localhost:5052'',
      validatorSet = [''0xcd'' \<mapsto> \<lparr>Validator = \<lparr>Pubkey = ''0xCD''\<rparr>\<rparr>]\<rparr>"

section \<open>The payload cache (package datastore)\<close>

text \<open>
  Of the payload cache the repository's sources here hold only the integration test;
  the cache itself (\<^verbatim>\<open>SaveExecutionPayload\<close>, \<^verbatim>\<open>GetExecutionPayload\<close>) and the memcached
  client are modelled from sections 3, 4.1, 6 and 7 of the specification. The type \<open>'f\<close>
  stands for the known protocol-fork variants, which the specification does not list.
\<close>

text \<open>
  Modelled from the spec: the error kinds of the payload cache (section 7). A miss is not
  an error; it is the absent result \<open>None\<close>.
\<close>

datatype cacheError = InvalidInput | StoreUnavailable | DecodeError

text \<open>
  Modelled from the spec: the cached payload, ``an opaque, fork-versioned execution payload
  blob''. \<open>forkVariant\<close> is \<open>None\<close> for a payload of no known fork variant.
\<close>

record 'f payload =
  forkVariant :: "'f option"
  payloadBody :: string

text \<open>
  Modelled from the spec: the validation that \<^verbatim>\<open>Save\<close> starts with, ``belonging to a known
  protocol-fork variant and carrying a non-empty body''.
\<close>

definition validPayload :: "'f payload \<Rightarrow> bool" where
  "validPayload p = (forkVariant p \<noteq> None \<and> payloadBody p \<noteq> [])"

text \<open>
  Modelled from the spec: the bytes of a stored value. The specification leaves the
  serialisation open (``fork tag plus body'', ``whatever serialization is used''), and so
  does the model: the bytes either read back as a fork tag followed by a body, or they do
  not parse into a fork-tagged payload.
\<close>

datatype 'f stored = Serialized 'f string | Unreadable string

text \<open>Modelled from the spec: deserialisation of a stored value; \<open>None\<close> when it fails.\<close>

fun deserialize :: "'f stored \<Rightarrow> 'f payload option" where
  "deserialize (Serialized f b) = Some \<lparr>forkVariant = Some f, payloadBody = b\<rparr>"
| "deserialize (Unreadable bs) = None"

text \<open>
  Modelled from the spec: the state of the Expiring Key-Value Store (section 6), as the
  in-memory substitute of section 9: each key holds nothing or one value with the instant
  at which it expires. Time is counted in seconds.
\<close>

type_synonym 'f store = "string \<rightharpoonup> ('f stored \<times> nat)"

text \<open>Modelled from the spec: the error of the store's operations, a transport failure.\<close>

datatype storeError = TransportFailure

text \<open>
  Modelled from the spec: \<^verbatim>\<open>set(key, value, ttl) -> error\<close> of the Expiring Key-Value
  Store. The time-to-live runs from the instant of the write, and the value replaces
  whatever the key held. The flag \<open>reachable\<close> says whether the store answers this call;
  when it does not, the call is a transport failure and writes nothing.
\<close>

definition storeSet ::
  "bool \<Rightarrow> nat \<Rightarrow> 'f store \<Rightarrow> string \<Rightarrow> 'f stored \<Rightarrow> nat \<Rightarrow> storeError option \<times> 'f store" where
  "storeSet reachable now st key v ttl =
     (if reachable then (None, st(key \<mapsto> (v, now + ttl))) else (Some TransportFailure, st))"

text \<open>
  Modelled from the spec: \<^verbatim>\<open>get(key) -> (bytes, found, error)\<close> of the Expiring Key-Value
  Store. A value is found from its write until its time-to-live has elapsed.
\<close>

definition storeGet :: "bool \<Rightarrow> nat \<Rightarrow> 'f store \<Rightarrow> string \<Rightarrow> storeError + 'f stored option" where
  "storeGet reachable now st key =
     (if reachable
      then Inr (case st key of
                  None \<Rightarrow> None
                | Some (v, expiry) \<Rightarrow> if now < expiry then Some v else None)
      else Inl TransportFailure)"

text \<open>
  Modelled from the spec: the payload cache's configuration, the fixed namespace of its
  keys and the time-to-live of its entries in seconds.
\<close>

record payloadCache =
  namespace :: string
  ttl :: nat

text \<open>Modelled from the spec: the decimal text of a slot number.\<close>

fun decimal :: "nat \<Rightarrow> string" where
  "decimal n =
     (if n < 10 then [char_of (48 + n)]
      else decimal (n div 10) @ [char_of (48 + n mod 10)])"

declare decimal.simps [simp del]

text \<open>
  Modelled from the spec: key construction, ``a deterministic string built from a fixed
  namespace plus the decimal slot, the lower-cased hex proposer pubkey, and the lower-cased
  hex block hash''. The separators are the model's choice.
\<close>

definition cacheKey :: "stdlib \<Rightarrow> payloadCache \<Rightarrow> nat \<Rightarrow> string \<Rightarrow> string \<Rightarrow> string" where
  "cacheKey lib c slot proposerPubkey blockHash =
     namespace c @ '':'' @ decimal slot @ ''_'' @ ToLower lib proposerPubkey
       @ ''_'' @ ToLower lib blockHash"

text \<open>
  Modelled from the spec: \<^verbatim>\<open>Save(slot, proposerPubkey, blockHash, payload) -> error\<close>. An
  invalid payload fails before the store is called; a valid one is serialised and written
  under the derived key with the configured time-to-live; a transport failure of the store
  is the store-unavailable error. The result is the error (\<open>None\<close> for none) and the
  store afterwards. Section 4.1 describes no check of the key components, and the model
  has none.
\<close>

definition Save ::
  "stdlib \<Rightarrow> payloadCache \<Rightarrow> bool \<Rightarrow> nat \<Rightarrow> 'f store \<Rightarrow> nat \<Rightarrow> string \<Rightarrow> string
     \<Rightarrow> 'f payload \<Rightarrow> cacheError option \<times> 'f store" where
  "Save lib c reachable now st slot proposerPubkey blockHash p =
     (case forkVariant p of
        None \<Rightarrow> (Some InvalidInput, st)
      | Some f \<Rightarrow>
          if payloadBody p = [] then (Some InvalidInput, st)
          else (case storeSet reachable now st (cacheKey lib c slot proposerPubkey blockHash)
                       (Serialized f (payloadBody p)) (ttl c) of
                  (Some err, st') \<Rightarrow> (Some StoreUnavailable, st')
                | (None, st') \<Rightarrow> (None, st')))"

text \<open>
  Modelled from the spec: \<^verbatim>\<open>Get(slot, proposerPubkey, blockHash) -> (payload-or-absent,
  error)\<close>. \<open>Inr None\<close> is the absent result; a stored value that does not deserialise is
  the decode error; a transport failure of the store is the store-unavailable error.
\<close>

definition Get ::
  "stdlib \<Rightarrow> payloadCache \<Rightarrow> bool \<Rightarrow> nat \<Rightarrow> 'f store \<Rightarrow> nat \<Rightarrow> string \<Rightarrow> string
     \<Rightarrow> cacheError + 'f payload option" where
  "Get lib c reachable now st slot proposerPubkey blockHash =
     (case storeGet reachable now st (cacheKey lib c slot proposerPubkey blockHash) of
        Inl err \<Rightarrow> Inl StoreUnavailable
      | Inr None \<Rightarrow> Inr None
      | Inr (Some v) \<Rightarrow>
          (case deserialize v of
             None \<Rightarrow> Inl DecodeError
           | Some p \<Rightarrow> Inr (Some p)))"

text \<open>Modelled from the spec: a cache for the examples, its time-to-live 45 seconds.\<close>

definition exampleCache :: payloadCache where
  "exampleCache = \<lparr>namespace = ''boost-relay/test'', ttl = 45\<rparr>"

text \<open>Modelled from the spec: two valid payloads for the examples.\<close>

definition examplePayload :: "string payload" where
  "examplePayload = \<lparr>forkVariant = Some ''capella'', payloadBody = ''gas_limit=5002''\<rparr>"

definition examplePayload2 :: "string payload" where
  "examplePayload2 = \<lparr>forkVariant = Some ''capella'', payloadBody = ''gas_limit=5003''\<rparr>"

section \<open>Properties of the validator service\<close>

lemmas byte_defs = isASCII_def isUpper_def isLower_def lowerByte_def upperByte_def isDigit_def


lemma char_eq_char_of: "(c = char_of (n::nat)) = (take_bit 8 n = of_char c)"
  using char_of_eq_iff [of n c] by auto

lemmas byte_eval = byte_defs char_of_eq_iff char_eq_char_of

subsection \<open>The loop of FetchValidators\<close>

lemma foldl_update_eq:
  "foldl (\<lambda>m x. m(f x \<mapsto> x)) m0 xs = m0 ++ map_of (rev (map (\<lambda>x. (f x, x)) xs))"
  by (induction xs arbitrary: m0) simp_all

lemma map_of_keyed_find:
  "map_of (map (\<lambda>x. (f x, x)) xs) k = List.find (\<lambda>x. f x = k) xs"
  by (induction xs) auto

lemma canonicalMapping_dom: "dom (canonicalMapping lib R) = set (canonicalKeys lib R)"
  by (auto simp: canonicalMapping_def canonicalKeys_def dom_def find_None_iff)

lemma FetchValidators_success:
  assumes "fetchAllValidators lib (beaconEndpoint b) rt = Inr R"
  shows "FetchValidators lib b rt = (None, b\<lparr>validatorSet := canonicalMapping lib R\<rparr>)"
proof -
  have "foldl (\<lambda>m vs. m(ToLower lib (Pubkey (Validator vs)) \<mapsto> vs)) Map.empty (Data R)
          = canonicalMapping lib R"
    by (rule ext) (simp add: foldl_update_eq canonicalMapping_def rev_map map_of_keyed_find)
  with assms show ?thesis
    by (simp add: FetchValidators_def)
qed

lemma FetchValidators_failure:
  assumes "fetchAllValidators lib (beaconEndpoint b) rt = Inl err"
  shows "FetchValidators lib b rt = (Some err, b)"
  using assms by (simp add: FetchValidators_def)

lemma failingFetch_iff:
  "failingFetch lib rt = isl (fetchAllValidators lib endpoint rt)"
  by (cases rt)
    (auto simp: fetchAllValidators_def fetchBeacon_def Let_def isl_def
      split: sum.splits if_splits)

lemma failingFetch_unchanged:
  assumes "failingFetch lib rt"
  shows "\<exists>err. FetchValidators lib b rt = (Some err, b)"
proof -
  from assms obtain err where "fetchAllValidators lib (beaconEndpoint b) rt = Inl err"
    by (auto simp: failingFetch_iff [of lib rt "beaconEndpoint b"] isl_def)
  then show ?thesis
    by (auto dest: FetchValidators_failure)
qed

lemma fetch_success:
  assumes "StatusCode resp < 300" and "jsonScan lib (Body resp) = Inr j"
    and "decodeAllValidatorsResponse j \<lparr>Data = []\<rparr> = Inr R"
  shows "fetchAllValidators lib endpoint (Received resp) = Inr R"
  using assms by (simp add: fetchAllValidators_def fetchBeacon_def Unmarshal_def)

lemma IsValidator_iff: "IsValidator lib b p = (ToLower lib p \<in> dom (validatorSet b))"
  by (auto simp: IsValidator_def split: option.splits)

subsection \<open>Lower case\<close>

lemma ToLower_ascii: "list_all isASCII s \<Longrightarrow> ToLower lib s = map lowerByte s"
  by (auto simp: ToLower_def list_ex_iff list_all_iff lowerByte_def intro!: map_idI [symmetric])

lemma sameLetter_lowerByte: "sameLetter c d \<Longrightarrow> lowerByte c = lowerByte d"
  by (auto simp: sameLetter_def byte_defs)

lemma sameLetter_isASCII: "sameLetter c d \<Longrightarrow> isASCII c \<Longrightarrow> isASCII d"
  by (auto simp: sameLetter_def byte_defs)

lemma sameUpToCase_ToLower:
  assumes "sameUpToCase p q" and "list_all isASCII p"
  shows "ToLower lib p = ToLower lib q"
proof -
  from assms have "list_all isASCII q \<and> map lowerByte p = map lowerByte q"
    unfolding sameUpToCase_def
    by (induction p q rule: list_all2_induct)
      (auto dest: sameLetter_lowerByte sameLetter_isASCII)
  with assms(2) show ?thesis
    by (simp add: ToLower_ascii)
qed

lemma ToLower_0xab: "ToLower lib ''0xab'' = ''0xab''"
  by (simp add: ToLower_def byte_defs)

lemma ToLower_0xAB: "ToLower lib ''0xAB'' = ''0xab''"
  by (simp add: ToLower_def byte_eval)

lemma ToLower_0xCD: "ToLower lib ''0xCD'' = ''0xcd''"
  by (simp add: ToLower_def byte_eval)

subsection \<open>The examples\<close>

lemmas example_defs =
  exampleLib_def exampleScan_def validatorsBody_def notFoundBody_def quoted_def

lemma exampleScan_validatorsBody: "jsonScan exampleLib validatorsBody = Inr validatorsDocument"
  by (simp add: example_defs)

lemma exampleScan_notFoundBody: "jsonScan exampleLib notFoundBody = Inr notFoundDocument"
  by (simp add: example_defs)

lemma exampleScan_array: "jsonScan exampleLib ''[]'' = Inr (JArray [])"
  by (simp add: example_defs)

lemma exampleScan_object: "jsonScan exampleLib ''{}'' = Inr (JObject [])"
  by (simp add: example_defs)

lemma exampleService_0xCD: "IsValidator lib exampleService ''0xCD''"
  by (simp add: IsValidator_def exampleService_def ToLower_0xCD)

lemma exampleService_count: "NumValidators exampleService = 1"
  by (simp add: NumValidators_def exampleService_def)

lemma decode_validatorsDocument:
  "decodeAllValidatorsResponse validatorsDocument \<lparr>Data = []\<rparr>
     = Inr \<lparr>Data = [\<lparr>Validator = \<lparr>Pubkey = ''0xAB''\<rparr>\<rparr>]\<rparr>"
  by (simp add: validatorsDocument_def decodeAllValidatorsResponse_def
      allValidatorsResponseField_def decodeValidatorResponseEntry_def
      validatorResponseEntryField_def decodeValidatorStruct_def validatorStructField_def
      equalFold_def byte_eval)

lemma decode_notFoundDocument:
  "decodeErrorResponse notFoundDocument \<lparr>Code = 0, Message = []\<rparr>
     = Inr \<lparr>Code = 404, Message = ''State not found''\<rparr>"
  by (simp add: notFoundDocument_def decodeErrorResponse_def errorResponseField_def
      equalFold_def byte_eval ParseInt_def parseDigits_def digitsValue_def)

lemma fetch_validatorsBody:
  "fetchAllValidators exampleLib endpoint (Received \<lparr>StatusCode = 200, Body = validatorsBody\<rparr>)
     = Inr \<lparr>Data = [\<lparr>Validator = \<lparr>Pubkey = ''0xAB''\<rparr>\<rparr>]\<rparr>"
  by (simp add: fetch_success [OF _ _ decode_validatorsDocument] exampleScan_validatorsBody)

subsection \<open>A refresh that fails\<close>

text \<open>
  Claim C1. For every state of the service and every failing fetch (a network error, a
  response with status 300 or more, a success response whose body does not decode),
  \<^verbatim>\<open>FetchValidators\<close> returns an error and leaves the service, and with it the validator
  mapping, as it was: \<^verbatim>\<open>IsValidator\<close> and \<^verbatim>\<open>NumValidators\<close> answer as before the call.
\<close>

theorem refresh_failure_keeps_mapping:
  assumes "failingFetch lib rt"
  shows "(\<exists>err. fst (FetchValidators lib b rt) = Some err)
         \<and> snd (FetchValidators lib b rt) = b
         \<and> validatorSet (snd (FetchValidators lib b rt)) = validatorSet b
         \<and> (\<forall>p. IsValidator lib (snd (FetchValidators lib b rt)) p = IsValidator lib b p)
         \<and> NumValidators (snd (FetchValidators lib b rt)) = NumValidators b"
proof -
  from assms obtain err where "FetchValidators lib b rt = (Some err, b)"
    using failingFetch_unchanged by blast
  then show ?thesis by simp
qed

theorem refresh_failure_keeps_mapping_witness:
  "failingFetch exampleLib (DoFailed (otherError ''connection refused''))
   \<and> fst (FetchValidators exampleLib exampleService (DoFailed (otherError ''connection refused'')))
       = Some (wrapError
           ''client refused for http://localhost:5052/eth/v1/beacon/states/head/validators?status=active,pending: connection refused''
           (otherError ''connection refused''))
   \<and> snd (FetchValidators exampleLib exampleService (DoFailed (otherError ''connection refused'')))
       = exampleService
   \<and> IsValidator exampleLib
        (snd (FetchValidators exampleLib exampleService (DoFailed (otherError ''connection refused''))))
        ''0xCD''
   \<and> NumValidators
        (snd (FetchValidators exampleLib exampleService (DoFailed (otherError ''connection refused''))))
       = 1"
proof -
  have h: "failingFetch exampleLib (DoFailed (otherError ''connection refused''))"
    by simp
  have e: "fst (FetchValidators exampleLib exampleService (DoFailed (otherError ''connection refused'')))
       = Some (wrapError
           ''client refused for http://localhost:5052/eth/v1/beacon/states/head/validators?status=active,pending: connection refused''
           (otherError ''connection refused''))"
    by (simp add: FetchValidators_def fetchAllValidators_def fetchBeacon_def Errorf_def
        exampleService_def)
  from refresh_failure_keeps_mapping [OF h, of exampleService] h e show ?thesis
    by (simp add: exampleService_0xCD exampleService_count)
qed

subsection \<open>A refresh that succeeds\<close>

text \<open>
  Claim C2. For every state of the service and every response \<open>R\<close> that was fetched and
  decoded without error, \<^verbatim>\<open>FetchValidators\<close> returns nil and the validator mapping is the
  mapping built from \<open>R\<close> with each public key in lower case: \<^verbatim>\<open>IsValidator(p)\<close> holds
  exactly when the lower-cased \<open>p\<close> is among the lower-cased public keys of \<open>R\<close>, and a
  key of the old mapping that is not among them is registered no longer.
\<close>

theorem refresh_success_replaces_mapping:
  assumes "fetchAllValidators lib (beaconEndpoint b) rt = Inr R"
  shows "fst (FetchValidators lib b rt) = None
         \<and> validatorSet (snd (FetchValidators lib b rt)) = canonicalMapping lib R
         \<and> (\<forall>p. IsValidator lib (snd (FetchValidators lib b rt)) p
                 = (ToLower lib p \<in> set (canonicalKeys lib R)))
         \<and> (\<forall>p. IsValidator lib b p \<and> ToLower lib p \<notin> set (canonicalKeys lib R)
                 \<longrightarrow> \<not> IsValidator lib (snd (FetchValidators lib b rt)) p)
         \<and> (\<forall>k. k \<in> dom (validatorSet b) \<and> k \<notin> set (canonicalKeys lib R)
                 \<longrightarrow> validatorSet (snd (FetchValidators lib b rt)) k = None)"
proof -
  have eq: "FetchValidators lib b rt = (None, b\<lparr>validatorSet := canonicalMapping lib R\<rparr>)"
    using assms by (rule FetchValidators_success)
  have "\<And>k. k \<notin> set (canonicalKeys lib R) \<Longrightarrow> canonicalMapping lib R k = None"
    using canonicalMapping_dom [of lib R] by blast
  then show ?thesis
    by (simp add: eq IsValidator_iff canonicalMapping_dom)
qed

theorem refresh_success_replaces_mapping_witness:
  "fetchAllValidators exampleLib (beaconEndpoint exampleService)
       (Received \<lparr>StatusCode = 200, Body = validatorsBody\<rparr>)
     = Inr \<lparr>Data = [\<lparr>Validator = \<lparr>Pubkey = ''0xAB''\<rparr>\<rparr>]\<rparr>
   \<and> fst (FetchValidators exampleLib exampleService
            (Received \<lparr>StatusCode = 200, Body = validatorsBody\<rparr>)) = None
   \<and> IsValidator exampleLib exampleService ''0xCD''
   \<and> \<not> IsValidator exampleLib
          (snd (FetchValidators exampleLib exampleService
                  (Received \<lparr>StatusCode = 200, Body = validatorsBody\<rparr>))) ''0xCD''
   \<and> IsValidator exampleLib
          (snd (FetchValidators exampleLib exampleService
                  (Received \<lparr>StatusCode = 200, Body = validatorsBody\<rparr>))) ''0xAB''"
proof -
  have h: "fetchAllValidators exampleLib (beaconEndpoint exampleService)
       (Received \<lparr>StatusCode = 200, Body = validatorsBody\<rparr>)
     = Inr \<lparr>Data = [\<lparr>Validator = \<lparr>Pubkey = ''0xAB''\<rparr>\<rparr>]\<rparr>"
    by (rule fetch_validatorsBody)
  from refresh_success_replaces_mapping [OF h] h show ?thesis
    by (simp add: canonicalKeys_def ToLower_0xAB ToLower_0xCD exampleService_0xCD)
qed

subsection \<open>Lookups\<close>

text \<open>
  Claim C6. \<^verbatim>\<open>IsValidator\<close> is a total function to the booleans (it has no error result)
  and gives the same answer for every casing of a public key: for any two strings with
  the same lower-case form, and so for any two spellings of an ASCII (hexadecimal) text
  that differ in the case of letters only. After a refresh whose response is
  \<^verbatim>\<open>{"data":[{"validator":{"pubkey":"0xAB"}}]}\<close>, \<^verbatim>\<open>IsValidator("0xab")\<close> is true,
  \<^verbatim>\<open>NumValidators()\<close> is 1 and \<^verbatim>\<open>IsValidator("0xCD")\<close> is false.
\<close>

theorem is_validator_ignores_case:
  "(ToLower lib p = ToLower lib q \<longrightarrow> IsValidator lib b p = IsValidator lib b q)
   \<and> (list_all isASCII p \<and> sameUpToCase p q \<longrightarrow> IsValidator lib b p = IsValidator lib b q)
   \<and> (StatusCode resp < 300 \<and> jsonScan lib (Body resp) = Inr validatorsDocument \<longrightarrow>
        fst (FetchValidators lib b (Received resp)) = None
        \<and> IsValidator lib (snd (FetchValidators lib b (Received resp))) ''0xab''
        \<and> NumValidators (snd (FetchValidators lib b (Received resp))) = 1
        \<and> \<not> IsValidator lib (snd (FetchValidators lib b (Received resp))) ''0xCD'')"
proof (intro conjI impI)
  assume "ToLower lib p = ToLower lib q"
  then show "IsValidator lib b p = IsValidator lib b q"
    by (simp add: IsValidator_def)
next
  assume "list_all isASCII p \<and> sameUpToCase p q"
  then have "ToLower lib p = ToLower lib q"
    by (simp add: sameUpToCase_ToLower)
  then show "IsValidator lib b p = IsValidator lib b q"
    by (simp add: IsValidator_def)
next
  assume h: "StatusCode resp < 300 \<and> jsonScan lib (Body resp) = Inr validatorsDocument"
  let ?R = "\<lparr>Data = [\<lparr>Validator = \<lparr>Pubkey = ''0xAB''\<rparr>\<rparr>]\<rparr>"
  from h have "fetchAllValidators lib (beaconEndpoint b) (Received resp) = Inr ?R"
    by (simp add: fetch_success decode_validatorsDocument)
  then have eq: "FetchValidators lib b (Received resp)
                   = (None, b\<lparr>validatorSet := canonicalMapping lib ?R\<rparr>)"
    by (rule FetchValidators_success)
  have dom: "dom (canonicalMapping lib ?R) = {''0xab''}"
    by (simp add: canonicalMapping_dom canonicalKeys_def ToLower_0xAB)
  show "fst (FetchValidators lib b (Received resp)) = None"
    by (simp add: eq)
  show "IsValidator lib (snd (FetchValidators lib b (Received resp))) ''0xab''"
    by (simp add: eq IsValidator_iff dom ToLower_0xab)
  show "NumValidators (snd (FetchValidators lib b (Received resp))) = 1"
    by (simp add: eq NumValidators_def dom)
  show "\<not> IsValidator lib (snd (FetchValidators lib b (Received resp))) ''0xCD''"
    by (simp add: eq IsValidator_iff dom ToLower_0xCD)
qed

theorem is_validator_ignores_case_witness:
  "ToLower exampleLib ''0xCD'' = ToLower exampleLib ''0xcd''
   \<and> list_all isASCII ''0xCD'' \<and> sameUpToCase ''0xCD'' ''0xcD''
   \<and> IsValidator exampleLib exampleService ''0xCD'' = IsValidator exampleLib exampleService ''0xcd''
   \<and> IsValidator exampleLib exampleService ''0xCD'' = IsValidator exampleLib exampleService ''0xcD''
   \<and> IsValidator exampleLib exampleService ''0xcD''
   \<and> StatusCode \<lparr>StatusCode = 200, Body = validatorsBody\<rparr> < 300
   \<and> jsonScan exampleLib (Body \<lparr>StatusCode = 200, Body = validatorsBody\<rparr>) = Inr validatorsDocument
   \<and> IsValidator exampleLib
        (snd (FetchValidators exampleLib exampleService
                (Received \<lparr>StatusCode = 200, Body = validatorsBody\<rparr>))) ''0xab''
   \<and> NumValidators
        (snd (FetchValidators exampleLib exampleService
                (Received \<lparr>StatusCode = 200, Body = validatorsBody\<rparr>))) = 1
   \<and> \<not> IsValidator exampleLib
        (snd (FetchValidators exampleLib exampleService
                (Received \<lparr>StatusCode = 200, Body = validatorsBody\<rparr>))) ''0xCD''"
proof -
  have h1: "ToLower exampleLib ''0xCD'' = ToLower exampleLib ''0xcd''"
    by (simp add: ToLower_def byte_eval)
  have h2: "list_all isASCII ''0xCD'' \<and> sameUpToCase ''0xCD'' ''0xcD''"
    by (simp add: sameUpToCase_def sameLetter_def byte_eval)
  have h3: "StatusCode \<lparr>StatusCode = 200, Body = validatorsBody\<rparr> < 300
     \<and> jsonScan exampleLib (Body \<lparr>StatusCode = 200, Body = validatorsBody\<rparr>) = Inr validatorsDocument"
    by (simp add: exampleScan_validatorsBody)
  from is_validator_ignores_case
         [of exampleLib "''0xCD''" "''0xcd''" exampleService
             "\<lparr>StatusCode = 200, Body = validatorsBody\<rparr>"]
       is_validator_ignores_case
         [of exampleLib "''0xCD''" "''0xcD''" exampleService
             "\<lparr>StatusCode = 200, Body = validatorsBody\<rparr>"]
       h1 h2 h3 exampleService_0xCD [of exampleLib]
  show ?thesis
    by simp
qed

lemma refreshes_failing:
  "list_all (failingFetch lib) rts \<Longrightarrow> refreshes lib b rts = b"
proof (induction rts)
  case Nil
  then show ?case by simp
next
  case (Cons rt rts)
  then obtain err where "FetchValidators lib b rt = (Some err, b)"
    using failingFetch_unchanged [of lib rt b] by auto
  with Cons show ?case by simp
qed

text \<open>
  Claim C9. On a service as \<^verbatim>\<open>NewBeaconClientValidatorService\<close> makes it, and as long as
  no call of \<^verbatim>\<open>FetchValidators\<close> has succeeded, \<^verbatim>\<open>IsValidator(p)\<close> is false for every
  \<open>p\<close> and \<^verbatim>\<open>NumValidators()\<close> is 0.
\<close>

theorem fresh_service_is_empty:
  "IsValidator lib (NewBeaconClientValidatorService endpoint) p = False
   \<and> NumValidators (NewBeaconClientValidatorService endpoint) = 0
   \<and> (list_all (failingFetch lib) rts \<longrightarrow>
        IsValidator lib (refreshes lib (NewBeaconClientValidatorService endpoint) rts) p = False
        \<and> NumValidators (refreshes lib (NewBeaconClientValidatorService endpoint) rts) = 0)"
  by (simp add: refreshes_failing)
    (simp add: IsValidator_def NumValidators_def NewBeaconClientValidatorService_def)

theorem fresh_service_is_empty_witness:
  "list_all (failingFetch exampleLib)
     [DoFailed (otherError ''connection refused''),
      Received \<lparr>StatusCode = 404, Body = notFoundBody\<rparr>,
      Received \<lparr>StatusCode = 200, Body = ''[]''\<rparr>]
   \<and> IsValidator exampleLib
        (refreshes exampleLib (NewBeaconClientValidatorService ''http://localhost:5052'')
           [DoFailed (otherError ''connection refused''),
            Received \<lparr>StatusCode = 404, Body = notFoundBody\<rparr>,
            Received \<lparr>StatusCode = 200, Body = ''[]''\<rparr>]) ''0xAB'' = False
   \<and> NumValidators
        (refreshes exampleLib (NewBeaconClientValidatorService ''http://localhost:5052'')
           [DoFailed (otherError ''connection refused''),
            Received \<lparr>StatusCode = 404, Body = notFoundBody\<rparr>,
            Received \<lparr>StatusCode = 200, Body = ''[]''\<rparr>]) = 0
   \<and> IsValidator exampleLib (NewBeaconClientValidatorService ''http://localhost:5052'') ''0xAB''
       = False
   \<and> NumValidators (NewBeaconClientValidatorService ''http://localhost:5052'') = 0"
proof -
  have h: "list_all (failingFetch exampleLib)
     [DoFailed (otherError ''connection refused''),
      Received \<lparr>StatusCode = 404, Body = notFoundBody\<rparr>,
      Received \<lparr>StatusCode = 200, Body = ''[]''\<rparr>]"
    by (simp add: Unmarshal_def exampleScan_array decodeAllValidatorsResponse_def)
  from fresh_service_is_empty
         [of exampleLib "''http://localhost:5052''" "''0xAB''"
             "[DoFailed (otherError ''connection refused''),
               Received \<lparr>StatusCode = 404, Body = notFoundBody\<rparr>,
               Received \<lparr>StatusCode = 200, Body = ''[]''\<rparr>]"] h
  show ?thesis
    by simp
qed

subsection \<open>Error responses\<close>

text \<open>
  Claim C8. For every response with a status of 300 or more whose body decodes into the
  struct of a code and a message, \<^verbatim>\<open>fetchBeacon\<close>, and with it \<^verbatim>\<open>FetchValidators\<close>,
  returns the error \<^verbatim>\<open>errors.New(ec.Message)\<close>, whose text is the decoded message.
\<close>

theorem error_response_message:
  assumes "StatusCode resp \<ge> 300"
    and "Unmarshal lib (Body resp) decodeErrorResponse \<lparr>Code = 0, Message = []\<rparr> = Inr ec"
  shows "fetchBeacon lib url method (Received resp) decode dst = Inl (errorString (Message ec))
         \<and> fst (FetchValidators lib b (Received resp)) = Some (errorString (Message ec))
         \<and> Error (errorString (Message ec)) = Message ec"
  using assms
  by (simp add: fetchBeacon_def FetchValidators_def fetchAllValidators_def)

theorem error_response_message_witness:
  "StatusCode \<lparr>StatusCode = 404, Body = notFoundBody\<rparr> \<ge> 300
   \<and> Unmarshal exampleLib (Body \<lparr>StatusCode = 404, Body = notFoundBody\<rparr>) decodeErrorResponse
        \<lparr>Code = 0, Message = []\<rparr> = Inr \<lparr>Code = 404, Message = ''State not found''\<rparr>
   \<and> fst (FetchValidators exampleLib exampleService
             (Received \<lparr>StatusCode = 404, Body = notFoundBody\<rparr>))
       = Some (errorString ''State not found'')
   \<and> Error (errorString ''State not found'') = ''State not found''"
proof -
  have h1: "StatusCode \<lparr>StatusCode = 404, Body = notFoundBody\<rparr> \<ge> 300" by simp
  have h2: "Unmarshal exampleLib (Body \<lparr>StatusCode = 404, Body = notFoundBody\<rparr>) decodeErrorResponse
        \<lparr>Code = 0, Message = []\<rparr> = Inr \<lparr>Code = 404, Message = ''State not found''\<rparr>"
    by (simp add: Unmarshal_def exampleScan_notFoundBody decode_notFoundDocument)
  from error_response_message [OF h1 h2, of "''u''" "''GET''" decodeAllValidatorsResponse
         "\<lparr>Data = []\<rparr>" exampleService] h1 h2
  show ?thesis
    by simp
qed

subsection \<open>A success response without the data member\<close>

text \<open>
  Claim C10, as stated, fails. The body \<^verbatim>\<open>[]\<close> of a response with status 200 is valid
  JSON and has no member for the field \<^verbatim>\<open>Data\<close>, but an array does not decode into the
  response struct: \<^verbatim>\<open>FetchValidators\<close> returns the decode error, the validator known
  before is still registered and \<^verbatim>\<open>NumValidators()\<close> is 1.
\<close>

theorem missing_data_not_always_success:
  "StatusCode \<lparr>StatusCode = 200, Body = ''[]''\<rparr> < 300
   \<and> jsonScan exampleLib (Body \<lparr>StatusCode = 200, Body = ''[]''\<rparr>) = Inr (JArray [])
   \<and> \<not> hasDataField (JArray [])
   \<and> FetchValidators exampleLib exampleService (Received \<lparr>StatusCode = 200, Body = ''[]''\<rparr>)
       = (Some (wrapError
            ''could not unmarshal response for http://localhost:5052/eth/v1/beacon/states/head/validators?status=active,pending from []: json: cannot unmarshal array into Go value of type server.allValidatorsResponse''
            (UnmarshalTypeError ''array'' ''server.allValidatorsResponse'')),
          exampleService)
   \<and> IsValidator exampleLib
         (snd (FetchValidators exampleLib exampleService
                 (Received \<lparr>StatusCode = 200, Body = ''[]''\<rparr>))) ''0xCD''
   \<and> NumValidators
         (snd (FetchValidators exampleLib exampleService
                 (Received \<lparr>StatusCode = 200, Body = ''[]''\<rparr>))) = 1"
proof -
  have "FetchValidators exampleLib exampleService (Received \<lparr>StatusCode = 200, Body = ''[]''\<rparr>)
       = (Some (wrapError
            ''could not unmarshal response for http://localhost:5052/eth/v1/beacon/states/head/validators?status=active,pending from []: json: cannot unmarshal array into Go value of type server.allValidatorsResponse''
            (UnmarshalTypeError ''array'' ''server.allValidatorsResponse'')),
          exampleService)"
    by (simp add: FetchValidators_def fetchAllValidators_def fetchBeacon_def Unmarshal_def
        exampleScan_array decodeAllValidatorsResponse_def Errorf_def exampleService_def)
  then show ?thesis
    by (simp add: exampleScan_array exampleService_0xCD exampleService_count)
qed

lemma decodeMembers_no_data:
  "\<not> list_ex (\<lambda>kv. equalFold (fst kv) ''Data'') kvs
     \<Longrightarrow> decodeMembers allValidatorsResponseField kvs v = Inr v"
  by (induction kvs arbitrary: v) (auto simp: allValidatorsResponseField_def)

lemma decode_without_data:
  "isObjectOrNull j \<Longrightarrow> \<not> hasDataField j \<Longrightarrow> decodeAllValidatorsResponse j v = Inr v"
  by (cases j) (simp_all add: decodeAllValidatorsResponse_def decodeMembers_no_data)

text \<open>
  Claim C10, amended. For every response with a status below 300 whose body is a JSON
  object without a member for the field \<^verbatim>\<open>Data\<close> (no key equal to \<^verbatim>\<open>data\<close> up to case
  folding), or is \<^verbatim>\<open>null\<close>, \<^verbatim>\<open>FetchValidators\<close> returns nil and installs the empty
  mapping: no validator is registered any more and \<^verbatim>\<open>NumValidators()\<close> is 0.
\<close>

theorem object_without_data_installs_empty:
  assumes "StatusCode resp < 300" and "jsonScan lib (Body resp) = Inr j"
    and "isObjectOrNull j" and "\<not> hasDataField j"
  shows "FetchValidators lib b (Received resp) = (None, b\<lparr>validatorSet := Map.empty\<rparr>)
         \<and> (\<forall>p. \<not> IsValidator lib (snd (FetchValidators lib b (Received resp))) p)
         \<and> NumValidators (snd (FetchValidators lib b (Received resp))) = 0"
proof -
  have "fetchAllValidators lib (beaconEndpoint b) (Received resp) = Inr \<lparr>Data = []\<rparr>"
    using assms by (simp add: fetch_success decode_without_data)
  then have "FetchValidators lib b (Received resp) = (None, b\<lparr>validatorSet := Map.empty\<rparr>)"
    by (simp add: FetchValidators_def)
  then show ?thesis
    by (simp add: IsValidator_def NumValidators_def)
qed

theorem object_without_data_installs_empty_witness:
  "StatusCode \<lparr>StatusCode = 200, Body = ''{}''\<rparr> < 300
   \<and> jsonScan exampleLib (Body \<lparr>StatusCode = 200, Body = ''{}''\<rparr>) = Inr (JObject [])
   \<and> isObjectOrNull (JObject []) \<and> \<not> hasDataField (JObject [])
   \<and> IsValidator exampleLib exampleService ''0xCD''
   \<and> FetchValidators exampleLib exampleService (Received \<lparr>StatusCode = 200, Body = ''{}''\<rparr>)
       = (None, exampleService\<lparr>validatorSet := Map.empty\<rparr>)
   \<and> \<not> IsValidator exampleLib
         (snd (FetchValidators exampleLib exampleService
                 (Received \<lparr>StatusCode = 200, Body = ''{}''\<rparr>))) ''0xCD''
   \<and> NumValidators
         (snd (FetchValidators exampleLib exampleService
                 (Received \<lparr>StatusCode = 200, Body = ''{}''\<rparr>))) = 0"
proof -
  have h1: "StatusCode \<lparr>StatusCode = 200, Body = ''{}''\<rparr> < 300" by simp
  have h2: "jsonScan exampleLib (Body \<lparr>StatusCode = 200, Body = ''{}''\<rparr>) = Inr (JObject [])"
    by (simp add: exampleScan_object)
  have h3: "isObjectOrNull (JObject [])" by simp
  have h4: "\<not> hasDataField (JObject [])" by simp
  have eq: "FetchValidators exampleLib exampleService
               (Received \<lparr>StatusCode = 200, Body = ''{}''\<rparr>)
             = (None, exampleService\<lparr>validatorSet := Map.empty\<rparr>)"
    using object_without_data_installs_empty [OF h1 h2 h3 h4, of exampleService]
    by (rule conjunct1)
  have "\<not> IsValidator exampleLib (exampleService\<lparr>validatorSet := Map.empty\<rparr>) ''0xCD''"
    by (simp add: IsValidator_def)
  moreover have "NumValidators (exampleService\<lparr>validatorSet := Map.empty\<rparr>) = 0"
    by (simp add: NumValidators_def)
  ultimately show ?thesis
    using h2 by (simp add: eq exampleService_0xCD)
qed

section \<open>Properties of the payload cache\<close>

lemma Save_valid:
  assumes "validPayload p"
  shows "Save lib c True now st slot pk h p
           = (None, st(cacheKey lib c slot pk h
                         \<mapsto> (Serialized (the (forkVariant p)) (payloadBody p), now + ttl c)))"
  using assms by (auto simp: Save_def validPayload_def storeSet_def)

lemma Save_invalid:
  assumes "\<not> validPayload p"
  shows "Save lib c reachable now st slot pk h p = (Some InvalidInput, st)"
  using assms by (auto simp: Save_def validPayload_def split: option.splits)

lemma deserialize_valid:
  assumes "validPayload p"
  shows "deserialize (Serialized (the (forkVariant p)) (payloadBody p)) = Some p"
  using assms by (auto simp: validPayload_def)

lemma Get_fresh:
  assumes "st (cacheKey lib c slot pk h) = Some (v, expiry)" and "t < expiry"
  shows "Get lib c True t st slot pk h
           = (case deserialize v of None \<Rightarrow> Inl DecodeError | Some p \<Rightarrow> Inr (Some p))"
  using assms by (simp add: Get_def storeGet_def)

lemma Get_expired:
  assumes "st (cacheKey lib c slot pk h) = Some (v, expiry)" and "expiry \<le> t"
  shows "Get lib c True t st slot pk h = Inr None"
  using assms by (simp add: Get_def storeGet_def)

lemma Get_unwritten:
  assumes "st (cacheKey lib c slot pk h) = None"
  shows "Get lib c True t st slot pk h = Inr None"
  using assms by (simp add: Get_def storeGet_def)

lemma Get_after_Save:
  assumes "validPayload p"
  shows "Get lib c True t (snd (Save lib c True now st slot pk h p)) slot pk h
           = (if t < now + ttl c then Inr (Some p) else Inr None)"
  using assms
  by (simp add: Save_valid Get_fresh Get_expired deserialize_valid del: deserialize.simps)

lemma examplePayload_valid: "validPayload examplePayload"
  by (simp add: validPayload_def examplePayload_def)

lemma examplePayload2_valid: "validPayload examplePayload2"
  by (simp add: validPayload_def examplePayload2_def)

text \<open>
  Claim C3. For every valid payload \<open>p\<close> and every key triple (slot, proposer public key,
  block hash), \<^verbatim>\<open>Save\<close> at the instant \<open>now\<close> succeeds, and \<^verbatim>\<open>Get\<close> of the same triple
  at any later instant before the time-to-live has elapsed returns \<open>p\<close>: what is read
  back through serialisation, store and deserialisation is the payload that was saved.
  The store answers both calls.
\<close>

theorem save_then_get_returns_payload:
  assumes "validPayload p" and "now \<le> t" and "t < now + ttl c"
  shows "fst (Save lib c True now st slot pk h p) = None
         \<and> Get lib c True t (snd (Save lib c True now st slot pk h p)) slot pk h = Inr (Some p)"
  using assms by (simp add: Get_after_Save) (simp add: Save_valid)

theorem save_then_get_returns_payload_witness:
  "validPayload examplePayload \<and> (10::nat) \<le> 20 \<and> 20 < 10 + ttl exampleCache
   \<and> fst (Save exampleLib exampleCache True 10 (Map.empty :: string store)
             1 ''0xAA'' ''0x09'' examplePayload) = None
   \<and> Get exampleLib exampleCache True 20
        (snd (Save exampleLib exampleCache True 10 (Map.empty :: string store)
                1 ''0xAA'' ''0x09'' examplePayload))
        1 ''0xAA'' ''0x09'' = Inr (Some examplePayload)"
proof -
  have h: "(10::nat) \<le> 20" "20 < 10 + ttl exampleCache"
    by (simp_all add: exampleCache_def)
  from save_then_get_returns_payload [OF examplePayload_valid h] examplePayload_valid h
  show ?thesis by simp
qed

text \<open>
  Claim C4. For every payload of no known fork variant or with an empty body, \<^verbatim>\<open>Save\<close>
  returns the invalid-input error and the store is as before, whether it can be reached
  or not: every later \<^verbatim>\<open>Get\<close> of the triple answers as it would have without the call, and
  when the key held nothing it still returns absent with no error.
\<close>

theorem invalid_payload_is_rejected:
  assumes "\<not> validPayload p"
  shows "Save lib c reachable now st slot pk h p = (Some InvalidInput, st)
         \<and> (\<forall>up t. Get lib c up t (snd (Save lib c reachable now st slot pk h p)) slot pk h
                     = Get lib c up t st slot pk h)
         \<and> (st (cacheKey lib c slot pk h) = None \<longrightarrow>
              (\<forall>t. Get lib c True t (snd (Save lib c reachable now st slot pk h p)) slot pk h
                     = Inr None))"
  using assms by (simp add: Save_invalid Get_unwritten)

theorem invalid_payload_is_rejected_witness:
  "\<not> validPayload \<lparr>forkVariant = None :: string option, payloadBody = ''gas_limit=5002''\<rparr>
   \<and> Save exampleLib exampleCache True 10 (Map.empty :: string store) 1 ''0xAA'' ''0x09''
        \<lparr>forkVariant = None, payloadBody = ''gas_limit=5002''\<rparr>
       = (Some InvalidInput, Map.empty)
   \<and> (Map.empty :: string store) (cacheKey exampleLib exampleCache 1 ''0xAA'' ''0x09'') = None
   \<and> Get exampleLib exampleCache True 11
        (snd (Save exampleLib exampleCache True 10 (Map.empty :: string store) 1 ''0xAA'' ''0x09''
                \<lparr>forkVariant = None, payloadBody = ''gas_limit=5002''\<rparr>))
        1 ''0xAA'' ''0x09'' = Inr None"
proof -
  have h: "\<not> validPayload \<lparr>forkVariant = None :: string option, payloadBody = ''gas_limit=5002''\<rparr>"
    by (simp add: validPayload_def)
  note t = invalid_payload_is_rejected [OF h, of exampleLib exampleCache True 10 Map.empty 1
         "''0xAA''" "''0x09''"]
  have a: "Save exampleLib exampleCache True 10 (Map.empty :: string store) 1 ''0xAA'' ''0x09''
        \<lparr>forkVariant = None, payloadBody = ''gas_limit=5002''\<rparr>
       = (Some InvalidInput, Map.empty)"
    using t by (rule conjunct1)
  have b: "Get exampleLib exampleCache True 11
        (snd (Save exampleLib exampleCache True 10 (Map.empty :: string store) 1 ''0xAA'' ''0x09''
                \<lparr>forkVariant = None, payloadBody = ''gas_limit=5002''\<rparr>))
        1 ''0xAA'' ''0x09'' = Inr None"
    using t [THEN conjunct2, THEN conjunct2] by simp
  from h a b show ?thesis by blast
qed

text \<open>
  Claim C5. For every key triple and valid payloads \<open>p1\<close> and \<open>p2\<close>: after \<^verbatim>\<open>Save\<close> of
  \<open>p1\<close> and then of \<open>p2\<close>, \<^verbatim>\<open>Get\<close> before expiry returns \<open>p2\<close>, and at no instant does
  it return a different \<open>p1\<close>. The second \<^verbatim>\<open>Save\<close> succeeds on every store, whatever the
  key holds and whenever it was written, and \<^verbatim>\<open>Get\<close> then returns \<open>p2\<close>: there is no
  comparison with, or rejection because of, what was stored.
\<close>

theorem second_save_overwrites:
  assumes "validPayload p1" and "validPayload p2" and "t2 \<le> t" and "t < t2 + ttl c"
  shows "Get lib c True t
           (snd (Save lib c True t2 (snd (Save lib c True t1 st slot pk h p1)) slot pk h p2))
           slot pk h = Inr (Some p2)
         \<and> (p1 \<noteq> p2 \<longrightarrow>
              (\<forall>t'. Get lib c True t'
                 (snd (Save lib c True t2 (snd (Save lib c True t1 st slot pk h p1)) slot pk h p2))
                 slot pk h \<noteq> Inr (Some p1)))
         \<and> (\<forall>st'. fst (Save lib c True t2 st' slot pk h p2) = None
                \<and> Get lib c True t (snd (Save lib c True t2 st' slot pk h p2)) slot pk h
                    = Inr (Some p2))"
  using assms by (simp add: Get_after_Save) (simp add: Save_valid)

theorem second_save_overwrites_witness:
  "validPayload examplePayload \<and> validPayload examplePayload2
   \<and> (12::nat) \<le> 20 \<and> 20 < 12 + ttl exampleCache \<and> examplePayload \<noteq> examplePayload2
   \<and> Get exampleLib exampleCache True 20
        (snd (Save exampleLib exampleCache True 12
           (snd (Save exampleLib exampleCache True 10 (Map.empty :: string store)
                   1 ''0xAA'' ''0x09'' examplePayload))
           1 ''0xAA'' ''0x09'' examplePayload2))
        1 ''0xAA'' ''0x09'' = Inr (Some examplePayload2)
   \<and> Get exampleLib exampleCache True 20
        (snd (Save exampleLib exampleCache True 12
           (snd (Save exampleLib exampleCache True 10 (Map.empty :: string store)
                   1 ''0xAA'' ''0x09'' examplePayload))
           1 ''0xAA'' ''0x09'' examplePayload2))
        1 ''0xAA'' ''0x09'' \<noteq> Inr (Some examplePayload)"
proof -
  have h: "(12::nat) \<le> 20" "20 < 12 + ttl exampleCache"
    by (simp_all add: exampleCache_def)
  have d: "examplePayload \<noteq> examplePayload2"
    by (simp add: examplePayload_def examplePayload2_def)
  from second_save_overwrites [OF examplePayload_valid examplePayload2_valid h,
         of exampleLib 10 Map.empty 1 "''0xAA''" "''0x09''"]
       examplePayload_valid examplePayload2_valid h d
  show ?thesis by simp
qed

text \<open>
  Claim C7. For every key triple and valid payload: at any instant at which the
  time-to-live has elapsed since the \<^verbatim>\<open>Save\<close>, with no write to the key in between,
  \<^verbatim>\<open>Get\<close> returns absent and no error, the same result as for a key that was never
  written.
\<close>

theorem expired_entry_is_absent:
  assumes "validPayload p" and "now + ttl c \<le> t"
  shows "Get lib c True t (snd (Save lib c True now st slot pk h p)) slot pk h = Inr None
         \<and> Get lib c True t Map.empty slot pk h = Inr None"
  using assms by (simp add: Get_after_Save Get_unwritten)

theorem expired_entry_is_absent_witness:
  "validPayload examplePayload \<and> 10 + ttl exampleCache \<le> 55
   \<and> Get exampleLib exampleCache True 55
        (snd (Save exampleLib exampleCache True 10 (Map.empty :: string store)
                1 ''0xAA'' ''0x09'' examplePayload))
        1 ''0xAA'' ''0x09'' = Inr None
   \<and> Get exampleLib exampleCache True 55 (Map.empty :: string store) 1 ''0xAA'' ''0x09''
       = Inr None"
proof -
  have h: "10 + ttl exampleCache \<le> 55"
    by (simp add: exampleCache_def)
  from expired_entry_is_absent [OF examplePayload_valid h, of exampleLib Map.empty 1
         "''0xAA''" "''0x09''"] examplePayload_valid h
  show ?thesis by simp
qed

end
